theory Spec2Isabelle
  imports Complex_Main
begin

section \<open>JavaScript numbers\<close>

text \<open>
  The calculators of AgriPlanum (\<^verbatim>\<open>script.js\<close>, and their copies in
  \<^verbatim>\<open>docs/js/map.js\<close> with the helpers of \<^verbatim>\<open>utils.js\<close>) work on
  JavaScript numbers. A number is either \<^verbatim>\<open>NaN\<close> (what \<^verbatim>\<open>parseFloat\<close>
  returns for an empty or non-numeric field, and what arithmetic on \<^verbatim>\<open>undefined\<close>
  yields) or a finite value. Finite values are modelled as exact reals: the rounding of
  IEEE doubles and the two infinities are outside the embedding.
\<close>

datatype jsnum = NaN | Num real

definition isNaN :: "jsnum \<Rightarrow> bool" where
  "isNaN x = (case x of NaN \<Rightarrow> True | Num r \<Rightarrow> False)"

text \<open>\<^verbatim>\<open>!x\<close> on a number: true for \<^verbatim>\<open>NaN\<close> and for zero.\<close>

definition falsy :: "jsnum \<Rightarrow> bool" where
  "falsy x = (case x of NaN \<Rightarrow> True | Num r \<Rightarrow> r = 0)"

definition jsmul :: "jsnum \<Rightarrow> jsnum \<Rightarrow> jsnum" where
  "jsmul a b = (case a of NaN \<Rightarrow> NaN | Num x \<Rightarrow> (case b of NaN \<Rightarrow> NaN | Num y \<Rightarrow> Num (x * y)))"

text \<open>
  Division. The only quotient of the program, \<^verbatim>\<open>100 / germinationRate\<close>, stands behind
  the guard \<^verbatim>\<open>!germinationRate\<close>, so a zero divisor never reaches it; the model gives
  \<^verbatim>\<open>NaN\<close> there, where JavaScript gives an infinity.
\<close>

definition jsdiv :: "jsnum \<Rightarrow> jsnum \<Rightarrow> jsnum" where
  "jsdiv a b =
     (case a of NaN \<Rightarrow> NaN
      | Num x \<Rightarrow> (case b of NaN \<Rightarrow> NaN | Num y \<Rightarrow> if y = 0 then NaN else Num (x / y)))"

definition Math_ceil :: "jsnum \<Rightarrow> jsnum" where
  "Math_ceil a = (case a of NaN \<Rightarrow> NaN | Num x \<Rightarrow> Num (of_int \<lceil>x\<rceil>))"

text \<open>Comparisons: every comparison with \<^verbatim>\<open>NaN\<close> is false.\<close>

definition jslt :: "jsnum \<Rightarrow> jsnum \<Rightarrow> bool" where
  "jslt a b = (case a of NaN \<Rightarrow> False | Num x \<Rightarrow> (case b of NaN \<Rightarrow> False | Num y \<Rightarrow> x < y))"

definition jsgt :: "jsnum \<Rightarrow> jsnum \<Rightarrow> bool" where
  "jsgt a b = jslt b a"

section \<open>The Date object\<close>

text \<open>
  \<^verbatim>\<open>Date\<close> is modelled after the ECMAScript definition: a date holds a time value, the
  milliseconds since 1970-01-01T00:00:00Z, and the calendar fields are computed from it
  by \<^verbatim>\<open>Day\<close>, \<^verbatim>\<open>YearFromTime\<close>, \<^verbatim>\<open>MonthFromTime\<close> (0 to 11) and
  \<^verbatim>\<open>DateFromTime\<close>. Time values are unbounded integers here (the range check
  \<^verbatim>\<open>TimeClip\<close>, 100 million days around 1970, is not modelled).
\<close>

definition msPerDay :: int where
  "msPerDay = 86400000"

definition Day :: "int \<Rightarrow> int" where
  "Day t = t div msPerDay"

definition TimeWithinDay :: "int \<Rightarrow> int" where
  "TimeWithinDay t = t mod msPerDay"

definition DaysInYear :: "int \<Rightarrow> int" where
  "DaysInYear y =
     (if y mod 4 \<noteq> 0 then 365
      else if y mod 100 \<noteq> 0 then 366
      else if y mod 400 \<noteq> 0 then 365
      else 366)"

definition DayFromYear :: "int \<Rightarrow> int" where
  "DayFromYear y =
     365 * (y - 1970) + (y - 1969) div 4 - (y - 1901) div 100 + (y - 1601) div 400"

lemma div_succ:
  fixes a k :: int
  assumes k: "0 < k"
  shows "(a + 1) div k = a div k + (if (a + 1) mod k = 0 then 1 else 0)"
proof -
  have r: "0 \<le> a mod k" "a mod k < k" using k by simp_all
  have e: "a + 1 = k * (a div k) + (a mod k + 1)" by simp
  show ?thesis
  proof (cases "a mod k + 1 = k")
    case True
    then have "a + 1 = k * (a div k + 1) + 0" using e by (simp add: algebra_simps)
    then have "(a + 1) div k = a div k + 1" "(a + 1) mod k = 0"
      using k int_div_pos_eq [of "a + 1" k "a div k + 1" 0]
        int_mod_pos_eq [of "a + 1" k "a div k + 1" 0]
      by simp_all
    then show ?thesis by simp
  next
    case False
    then have lt: "a mod k + 1 < k" using r by linarith
    have "(a + 1) div k = a div k" "(a + 1) mod k = a mod k + 1"
      using e lt r int_div_pos_eq [of "a + 1" k "a div k" "a mod k + 1"]
        int_mod_pos_eq [of "a + 1" k "a div k" "a mod k + 1"]
      by simp_all
    then show ?thesis using r by simp
  qed
qed

lemma mod_shift:
  fixes y k c :: int
  assumes "c mod k = 0"
  shows "(y - c) mod k = 0 \<longleftrightarrow> y mod k = 0"
  by (metis assms diff_0_right mod_diff_right_eq)

text \<open>A year's first day and the next year's first day lie one year's length apart.\<close>

lemma DayFromYear_step: "DayFromYear (y + 1) = DayFromYear y + DaysInYear y"
proof -
  have a: "(y + 1 - 1969) div 4 = (y - 1969) div 4 + (if y mod 4 = 0 then 1 else 0)"
    using div_succ [of 4 "y - 1969"] mod_shift [of 1968 4 y] by (simp add: algebra_simps)
  have b: "(y + 1 - 1901) div 100 = (y - 1901) div 100 + (if y mod 100 = 0 then 1 else 0)"
    using div_succ [of 100 "y - 1901"] mod_shift [of 1900 100 y] by (simp add: algebra_simps)
  have c: "(y + 1 - 1601) div 400 = (y - 1601) div 400 + (if y mod 400 = 0 then 1 else 0)"
    using div_succ [of 400 "y - 1601"] mod_shift [of 1600 400 y] by (simp add: algebra_simps)
  have d: "y mod 4 = 0" if "y mod 100 = 0"
    using that dvd_trans [of 4 100 y] by (simp add: mod_eq_0_iff_dvd)
  have e: "y mod 100 = 0" if "y mod 400 = 0"
    using that dvd_trans [of 100 400 y] by (simp add: mod_eq_0_iff_dvd)
  have "DayFromYear (y + 1) =
      365 * (y - 1970) + 365 + ((y - 1969) div 4 + (if y mod 4 = 0 then 1 else 0))
       - ((y - 1901) div 100 + (if y mod 100 = 0 then 1 else 0))
       + ((y - 1601) div 400 + (if y mod 400 = 0 then 1 else 0))"
    unfolding DayFromYear_def a [symmetric] b [symmetric] c [symmetric] by simp
  also have "\<dots> = DayFromYear y + DaysInYear y"
    unfolding DayFromYear_def DaysInYear_def using d e by simp
  finally show ?thesis .
qed

lemma DaysInYear_ge: "365 \<le> DaysInYear y"
  by (simp add: DaysInYear_def)

text \<open>
  \<^verbatim>\<open>YearFromTime(t)\<close> is the largest year whose first day is not after \<^verbatim>\<open>Day(t)\<close>.
  It is computed by a search upwards from an estimate that is never too large
  (\<open>year_estimate_below\<close>); \<open>YearFromTime_bounds\<close> shows that the result is the year
  of the ECMAScript definition.
\<close>

function yearSearch :: "int \<Rightarrow> int \<Rightarrow> int" where
  "yearSearch d y = (if DayFromYear (y + 1) \<le> d then yearSearch d (y + 1) else y)"
  by pat_completeness auto
termination
proof (relation "measure (\<lambda>(d, y). nat (d - DayFromYear y))")
  show "wf (measure (\<lambda>(d, y). nat (d - DayFromYear y)))" by simp
next
  fix d y :: int
  assume "DayFromYear (y + 1) \<le> d"
  moreover have "DayFromYear y < DayFromYear (y + 1)"
    using DaysInYear_ge [of y] by (simp add: DayFromYear_step)
  ultimately show "((d, y + 1), (d, y)) \<in> measure (\<lambda>(d, y). nat (d - DayFromYear y))"
    by simp
qed

declare yearSearch.simps [simp del]

definition YearFromTime :: "int \<Rightarrow> int" where
  "YearFromTime t =
     (let d = Day t in yearSearch d (1970 + (if 0 \<le> d then d div 366 else d div 365)))"

definition DayWithinYear :: "int \<Rightarrow> int" where
  "DayWithinYear t = Day t - DayFromYear (YearFromTime t)"

definition InLeapYear :: "int \<Rightarrow> int" where
  "InLeapYear t = (if DaysInYear (YearFromTime t) = 365 then 0 else 1)"

definition MonthFromTime :: "int \<Rightarrow> int" where
  "MonthFromTime t =
     (let d = DayWithinYear t; l = InLeapYear t in
      if d < 31 then 0
      else if d < 59 + l then 1
      else if d < 90 + l then 2
      else if d < 120 + l then 3
      else if d < 151 + l then 4
      else if d < 181 + l then 5
      else if d < 212 + l then 6
      else if d < 243 + l then 7
      else if d < 273 + l then 8
      else if d < 304 + l then 9
      else if d < 334 + l then 10
      else 11)"

definition DateFromTime :: "int \<Rightarrow> int" where
  "DateFromTime t =
     (let d = DayWithinYear t; l = InLeapYear t; m = MonthFromTime t in
      if m = 0 then d + 1
      else if m = 1 then d - 30
      else if m = 2 then d - 58 - l
      else if m = 3 then d - 89 - l
      else if m = 4 then d - 119 - l
      else if m = 5 then d - 150 - l
      else if m = 6 then d - 180 - l
      else if m = 7 then d - 211 - l
      else if m = 8 then d - 242 - l
      else if m = 9 then d - 272 - l
      else if m = 10 then d - 303 - l
      else d - 333 - l)"

text \<open>
  \<^verbatim>\<open>MakeDay(year, month, date)\<close>: the day number of the first of the month (the month
  counted from 0, months beyond 11 carried into the year), plus \<^verbatim>\<open>date - 1\<close>. A date
  beyond the month's end runs on into the following months: this is what
  \<^verbatim>\<open>setDate\<close> relies on.
\<close>

definition DayInYearOfMonth :: "int \<Rightarrow> int \<Rightarrow> int" where
  "DayInYearOfMonth y m =
     (let l = (if DaysInYear y = 365 then 0 else 1) in
      if m = 0 then 0
      else if m = 1 then 31
      else if m = 2 then 59 + l
      else if m = 3 then 90 + l
      else if m = 4 then 120 + l
      else if m = 5 then 151 + l
      else if m = 6 then 181 + l
      else if m = 7 then 212 + l
      else if m = 8 then 243 + l
      else if m = 9 then 273 + l
      else if m = 10 then 304 + l
      else 334 + l)"

definition MakeDay :: "int \<Rightarrow> int \<Rightarrow> int \<Rightarrow> int" where
  "MakeDay year month date =
     (let ym = year + month div 12; mn = month mod 12 in
      DayFromYear ym + DayInYearOfMonth ym mn + date - 1)"

definition MakeDate :: "int \<Rightarrow> int \<Rightarrow> int" where
  "MakeDate day time = day * msPerDay + time"

text \<open>
  Local time. The host's time zone is a parameter \<open>tza\<close>, the offset of local time
  from UTC in milliseconds (\<^verbatim>\<open>LocalTZA\<close>; negative west of Greenwich, \<open>- 10800000\<close> in
  Brasilia). The offset is constant: daylight-saving changes are not modelled.
\<close>

definition LocalTime :: "int \<Rightarrow> int \<Rightarrow> int" where
  "LocalTime tza t = t + tza"

definition UTC :: "int \<Rightarrow> int \<Rightarrow> int" where
  "UTC tza t = t - tza"

text \<open>\<^verbatim>\<open>date.getDate()\<close> and \<^verbatim>\<open>date.setDate(dt)\<close> work in local time.\<close>

definition getDate :: "int \<Rightarrow> int \<Rightarrow> int" where
  "getDate tza t = DateFromTime (LocalTime tza t)"

definition setDate :: "int \<Rightarrow> int \<Rightarrow> int \<Rightarrow> int" where
  "setDate tza t dt =
     (let lt = LocalTime tza t;
          newDate = MakeDate (MakeDay (YearFromTime lt) (MonthFromTime lt) dt) (TimeWithinDay lt)
      in UTC tza newDate)"



subsection \<open>Facts about the calendar\<close>










section \<open>Reference data\<close>

text \<open>
  A region's calendar (\<^verbatim>\<open>zoningData[key]\<close>). The source keeps each bound as the text
  \<^verbatim>\<open>'MM-DD'\<close> and reads it with \<^verbatim>\<open>split('-').map(Number)\<close>; the model keeps the
  resulting pair \<^verbatim>\<open>[month, day]\<close>.
\<close>

record region =
  preferential_start :: "int \<times> int"
  preferential_end :: "int \<times> int"
  tolerated_start :: "int \<times> int"
  tolerated_end :: "int \<times> int"

text \<open>
  The ideal soil ranges of a variety (\<^verbatim>\<open>soil\<close> in \<^verbatim>\<open>script.js\<close>,
  \<^verbatim>\<open>ideal_soil_conditions\<close> in \<^verbatim>\<open>map.js\<close>): one field for each property that the
  report reads. \<^verbatim>\<open>ph.max\<close> may be \<^verbatim>\<open>undefined\<close> (\<open>None\<close>).
\<close>

record soil_ranges =
  ph_min :: jsnum
  ph_max :: "jsnum option"
  v_percent_min :: jsnum
  al_cmolc_max :: jsnum
  p_ppm_min :: jsnum
  k_ppm_min :: jsnum
  ca_cmolc_min :: jsnum
  mg_cmolc_min :: jsnum
  s_ppm_min :: jsnum
  b_ppm_min :: jsnum
  zn_ppm_min :: jsnum
  n_ppm_min :: jsnum

text \<open>
  A variety. \<open>stages\<close> is the object \<^verbatim>\<open>stages\<close> in property order (stage name,
  duration in days); \<open>population\<close> is \<^verbatim>\<open>population\<close> (\<^verbatim>\<open>target_population\<close> in
  \<^verbatim>\<open>map.js\<close>), \<^verbatim>\<open>NaN\<close> standing for a missing property, which is what the
  multiplication makes of \<^verbatim>\<open>undefined\<close>.
\<close>

record variety =
  name :: string
  stages :: "(string \<times> int) list"
  population :: jsnum
  soil :: soil_ranges

text \<open>The two tables of \<^verbatim>\<open>script.js\<close>.\<close>

definition cottonVarieties :: "string \<Rightarrow> variety option" where
  "cottonVarieties = map_of
     [(''tmg 84 b3xf'',
       \<lparr>name = ''TMG 84 B3XF'',
        stages =
          [(''Emergence to First Square (V0 to B1/B3)'', 35),
           (''First Square to First Flower (B1/B3 to F1)'', 25),
           (''Flowering Period (F1 to FN)'', 40),
           (''Boll Development & Maturation (C1 to CN)'', 50)],
        population = Num 110000,
        soil = \<lparr>ph_min = Num 6.0, ph_max = Some (Num 6.5), v_percent_min = Num 60,
          al_cmolc_max = Num 0.3, p_ppm_min = Num 20, k_ppm_min = Num 150,
          ca_cmolc_min = Num 2.5, mg_cmolc_min = Num 0.8, s_ppm_min = Num 10,
          b_ppm_min = Num 0.5, zn_ppm_min = Num 1.2, n_ppm_min = Num 100\<rparr>\<rparr>),
      (''brs 433'',
       \<lparr>name = ''BRS 433'',
        stages =
          [(''Emergence to First Square (V0 to B1/B3)'', 30),
           (''First Square to First Flower (B1/B3 to F1)'', 25),
           (''Flowering Period (F1 to FN)'', 40),
           (''Boll Development & Maturation (C1 to CN)'', 45)],
        population = Num 100000,
        soil = \<lparr>ph_min = Num 5.8, ph_max = Some (Num 6.5), v_percent_min = Num 60,
          al_cmolc_max = Num 0.3, p_ppm_min = Num 25, k_ppm_min = Num 120,
          ca_cmolc_min = Num 2.0, mg_cmolc_min = Num 0.8, s_ppm_min = Num 10,
          b_ppm_min = Num 0.6, zn_ppm_min = Num 1.4, n_ppm_min = Num 120\<rparr>\<rparr>)]"


section \<open>Outcomes of a handler\<close>

text \<open>
  A handler either renders a result or stops early. The ways it stops:
  \<^item> \<open>TypeError\<close>: an uncaught exception (a property read on \<^verbatim>\<open>undefined\<close>);
  \<^item> \<open>SelectVarietyAndDate\<close>: \<^verbatim>\<open>script.js\<close> shows
    ``Please select a variety and a planting date.'';
  \<^item> \<open>InvalidPlantingDate\<close>: \<^verbatim>\<open>script.js\<close> shows
    ``Invalid planting date. Please use the date picker.'';
  \<^item> \<open>SelectVarietyRegionAndDate\<close>: \<^verbatim>\<open>map.js\<close> alerts
    ``Please select a variety, region, and planting date.'';
  \<^item> \<open>FillAllFields\<close>: both sowing handlers report
    ``Please fill in all fields correctly.'';
  \<^item> \<open>InvalidSoilValues\<close>: \<^verbatim>\<open>script.js\<close> shows
    ``Please select a variety and enter valid values in all fields.'';
  \<^item> \<open>SelectReferenceVariety\<close>: \<^verbatim>\<open>map.js\<close> alerts
    ``Please select a reference variety.'';
  \<^item> \<open>FillValidNumbers\<close>: \<^verbatim>\<open>map.js\<close> shows
    ``Please fill all fields with valid numbers.''.
\<close>

datatype error =
    TypeError
  | SelectVarietyAndDate
  | InvalidPlantingDate
  | SelectVarietyRegionAndDate
  | FillAllFields
  | InvalidSoilValues
  | SelectReferenceVariety
  | FillValidNumbers

section \<open>Helpers: \<^verbatim>\<open>formatDate\<close>, \<^verbatim>\<open>getPlantingSeason\<close>, \<^verbatim>\<open>isBetween\<close>\<close>

text \<open>
  A \<^verbatim>\<open>Date\<close> object is its time value, \<open>None\<close> for an invalid date (time value
  \<^verbatim>\<open>NaN\<close>). \<^verbatim>\<open>formatDate\<close> prints day, month and year in the time zone UTC; the
  model keeps the three numbers (year, month from 1, day), and \<open>None\<close> for the text
  ``Invalid Date''.
\<close>

definition formatDate :: "int option \<Rightarrow> (int \<times> int \<times> int) option" where
  "formatDate date =
     (case date of
        None \<Rightarrow> None
      | Some t \<Rightarrow> Some (YearFromTime t, MonthFromTime t + 1, DateFromTime t))"

definition isBetween :: "int \<Rightarrow> int \<Rightarrow> int \<times> int \<Rightarrow> int \<times> int \<Rightarrow> bool" where
  "isBetween month day start end =
     (let (startMonth, startDay) = start;
          (endMonth, endDay) = end;
          dateNum = month * 100 + day;
          startNum = startMonth * 100 + startDay;
          endNum = endMonth * 100 + endDay
      in if startNum > endNum then dateNum \<ge> startNum \<or> dateNum \<le> endNum
         else dateNum \<ge> startNum \<and> dateNum \<le> endNum)"

text \<open>
  The badge that \<^verbatim>\<open>getPlantingSeason\<close> returns. \<open>RegionNotSelected\<close> is the fourth
  badge of \<^verbatim>\<open>utils.js\<close>, with the text ``Region not selected''; \<open>badge_class\<close> is
  the CSS class of the badge.
\<close>

datatype season = Preferential | Tolerated | NotRecommended | RegionNotSelected

fun badge_class :: "season \<Rightarrow> string" where
  "badge_class Preferential = ''preferential''"
| "badge_class Tolerated = ''tolerated''"
| "badge_class NotRecommended = ''not-recommended''"
| "badge_class RegionNotSelected = ''not-recommended''"

text \<open>\<^verbatim>\<open>getPlantingSeason\<close> of \<^verbatim>\<open>utils.js\<close>, with its guard \<^verbatim>\<open>if (!region)\<close>.\<close>

definition getPlantingSeason :: "int \<Rightarrow> int \<Rightarrow> region option \<Rightarrow> error + season" where
  "getPlantingSeason month day region =
     (case region of
        None \<Rightarrow> Inr RegionNotSelected
      | Some r \<Rightarrow>
          if isBetween month day (preferential_start r) (preferential_end r) then Inr Preferential
          else if isBetween month day (tolerated_start r) (tolerated_end r) then Inr Tolerated
          else Inr NotRecommended)"

text \<open>
  The copy in \<^verbatim>\<open>script.js\<close> has no guard: destructuring an \<^verbatim>\<open>undefined\<close> region
  throws.
\<close>

definition getPlantingSeason_script :: "int \<Rightarrow> int \<Rightarrow> region option \<Rightarrow> error + season" where
  "getPlantingSeason_script month day region =
     (case region of
        None \<Rightarrow> Inl TypeError
      | Some r \<Rightarrow>
          if isBetween month day (preferential_start r) (preferential_end r) then Inr Preferential
          else if isBetween month day (tolerated_start r) (tolerated_end r) then Inr Tolerated
          else Inr NotRecommended)"

section \<open>The cycle planner\<close>

text \<open>
  The value of the date field: empty, a date \<^verbatim>\<open>YYYY-MM-DD\<close>, or any other text.
  \<^verbatim>\<open>new Date(plantingDateStr + 'T00:00:00')\<close> reads a date-time without a zone, that
  is, midnight in local time; a text that is not a calendar date gives an invalid date.
\<close>

datatype date_field = EmptyField | DateString int int int | OtherText

definition DaysInMonth :: "int \<Rightarrow> int \<Rightarrow> int" where
  "DaysInMonth y m =
     (if m = 1 then (if DaysInYear y = 365 then 28 else 29)
      else if m = 3 \<or> m = 5 \<or> m = 8 \<or> m = 10 then 30
      else 31)"

definition validDate :: "int \<Rightarrow> int \<Rightarrow> int \<Rightarrow> bool" where
  "validDate y m d =
     (0 \<le> y \<and> y \<le> 9999 \<and> 1 \<le> m \<and> m \<le> 12 \<and> 1 \<le> d \<and> d \<le> DaysInMonth y (m - 1))"

definition newDate :: "int \<Rightarrow> date_field \<Rightarrow> int option" where
  "newDate tza text =
     (case text of
        DateString y m d \<Rightarrow>
          if validDate y m d then Some (UTC tza (MakeDate (MakeDay y (m - 1) d) 0)) else None
      | EmptyField \<Rightarrow> None
      | OtherText \<Rightarrow> None)"

text \<open>
  \<^verbatim>\<open>currentDate.setDate(currentDate.getDate() + stageDuration)\<close>. On an invalid date
  \<^verbatim>\<open>getDate()\<close> is \<^verbatim>\<open>NaN\<close> and the date stays invalid.
\<close>

definition addDays :: "int \<Rightarrow> int option \<Rightarrow> int \<Rightarrow> int option" where
  "addDays tza date n =
     (case date of None \<Rightarrow> None | Some t \<Rightarrow> Some (setDate tza t (getDate tza t + n)))"


record stage_line =
  stageName :: string
  stageStartDate :: "(int \<times> int \<times> int) option"
  stageEndDate :: "(int \<times> int \<times> int) option"
  stageDuration :: int


text \<open>
  The loop \<^verbatim>\<open>for (const stageName in cultivar.stages)\<close> of \<^verbatim>\<open>script.js\<close>: it
  returns the list items and the final \<^verbatim>\<open>currentDate\<close>.
\<close>

fun stageLoop :: "int \<Rightarrow> int option \<Rightarrow> (string \<times> int) list \<Rightarrow> stage_line list \<times> int option" where
  "stageLoop tza currentDate [] = ([], currentDate)"
| "stageLoop tza currentDate ((nm, dur) # rest) =
     (let stageStart = currentDate;
          currentDate' = addDays tza currentDate dur;
          stageEnd = currentDate';
          item = \<lparr>stageName = nm, stageStartDate = formatDate stageStart,
                   stageEndDate = formatDate stageEnd, stageDuration = dur\<rparr>;
          (items, final) = stageLoop tza currentDate' rest
      in (item # items, final))"






section \<open>The sowing calculator\<close>

text \<open>
  The click handler of \<^verbatim>\<open>calculateSowingBtn\<close> in \<^verbatim>\<open>script.js\<close>; \<open>area\<close> and
  \<open>germinationRate\<close> are the results of \<^verbatim>\<open>parseFloat\<close>. The result is the number
  \<^verbatim>\<open>Math.ceil(seedsToBuy)\<close> that the page prints.
\<close>

definition calculateSowingBtn_click ::
    "(string \<Rightarrow> variety option) \<Rightarrow> jsnum \<Rightarrow> string \<Rightarrow> jsnum \<Rightarrow> string \<Rightarrow> error + jsnum" where
  "calculateSowingBtn_click varieties area varietyKey germinationRate conditions =
     (if falsy area \<or> varietyKey = [] \<or> falsy germinationRate then Inl FillAllFields
      else case varieties varietyKey of
             None \<Rightarrow> Inl TypeError
           | Some cultivar \<Rightarrow>
               let conditionFactor =
                     (if conditions = ''average'' then Num 1.05
                      else if conditions = ''poor'' then Num 1.10
                      else Num 1.0);
                   germinationFactor = jsdiv (Num 100) germinationRate;
                   seedsToBuy =
                     jsmul (jsmul (jsmul area (population cultivar)) germinationFactor)
                       conditionFactor
               in Inr (Math_ceil seedsToBuy))"

text \<open>
  \<^verbatim>\<open>handleSowingCalculation\<close> of \<^verbatim>\<open>map.js\<close>: the same statements, with an alert for
  the message and \<^verbatim>\<open>target_population\<close> for the field.
\<close>

definition handleSowingCalculation ::
    "(string \<Rightarrow> variety option) \<Rightarrow> jsnum \<Rightarrow> string \<Rightarrow> jsnum \<Rightarrow> string \<Rightarrow> error + jsnum" where
  "handleSowingCalculation varieties area varietyKey germinationRate conditions =
     (if falsy area \<or> varietyKey = [] \<or> falsy germinationRate then Inl FillAllFields
      else case varieties varietyKey of
             None \<Rightarrow> Inl TypeError
           | Some cultivar \<Rightarrow>
               let conditionFactor =
                     (if conditions = ''average'' then Num 1.05
                      else if conditions = ''poor'' then Num 1.10
                      else Num 1.0);
                   germinationFactor = jsdiv (Num 100) germinationRate;
                   seedsToBuy =
                     jsmul (jsmul (jsmul area (population cultivar)) germinationFactor)
                       conditionFactor
               in Inr (Math_ceil seedsToBuy))"

section \<open>The soil analysis\<close>

text \<open>The eleven fields, each after \<^verbatim>\<open>parseFloat\<close>, in the order of the object \<^verbatim>\<open>inputs\<close>.\<close>

record soil_inputs =
  in_ph :: jsnum
  in_v :: jsnum
  in_al :: jsnum
  in_p :: jsnum
  in_k :: jsnum
  in_ca :: jsnum
  in_mg :: jsnum
  in_s :: jsnum
  in_b :: jsnum
  in_zn :: jsnum
  in_n :: jsnum

definition input_values :: "soil_inputs \<Rightarrow> jsnum list" where
  "input_values i =
     [in_ph i, in_v i, in_al i, in_p i, in_k i, in_ca i, in_mg i, in_s i, in_b i, in_zn i, in_n i]"

datatype nutrient =
  PH | BaseSaturation | Aluminum | Phosphorus | Potassium | Calcium | Magnesium | Sulfur
  | Boron | Zinc | Nitrogen

datatype status = Ok | Low | High

text \<open>
  The text after ``Ideal:'': \<^verbatim>\<open>> min\<close>, \<^verbatim>\<open>min - max\<close> or \<^verbatim>\<open>< min\<close>, with the numbers
  it is made of.
\<close>

datatype ideal_text = GreaterThan jsnum | Between jsnum jsnum | LessThan jsnum

record report_line =
  lineLabel :: nutrient
  lineUnit :: string
  lineValue :: jsnum
  lineIdeal :: ideal_text
  lineStatus :: status

definition createReportLine ::
    "nutrient \<Rightarrow> string \<Rightarrow> jsnum \<Rightarrow> jsnum \<Rightarrow> jsnum option \<Rightarrow> bool \<Rightarrow> report_line" where
  "createReportLine label unit value idealMin idealMax isReversed =
     (case idealMax of
        Some mx \<Rightarrow>
          (let st0 = Ok;
               st1 = (if jslt value idealMin then Low else st0);
               st2 = (if jsgt value mx then High else st1)
           in \<lparr>lineLabel = label, lineUnit = unit, lineValue = value,
                lineIdeal = Between idealMin mx, lineStatus = st2\<rparr>)
      | None \<Rightarrow>
          if isReversed
          then \<lparr>lineLabel = label, lineUnit = unit, lineValue = value,
                 lineIdeal = LessThan idealMin,
                 lineStatus = (if jsgt value idealMin then High else Ok)\<rparr>
          else \<lparr>lineLabel = label, lineUnit = unit, lineValue = value,
                 lineIdeal = GreaterThan idealMin,
                 lineStatus = (if jslt value idealMin then Low else Ok)\<rparr>)"

definition soilReport :: "soil_ranges \<Rightarrow> soil_inputs \<Rightarrow> report_line list" where
  "soilReport ideal inputs =
     [createReportLine PH [] (in_ph inputs) (ph_min ideal) (ph_max ideal) False,
      createReportLine BaseSaturation ''%'' (in_v inputs) (v_percent_min ideal) None False,
      createReportLine Aluminum ''cmolc'' (in_al inputs) (al_cmolc_max ideal) None True,
      createReportLine Phosphorus ''ppm'' (in_p inputs) (p_ppm_min ideal) None False,
      createReportLine Potassium ''ppm'' (in_k inputs) (k_ppm_min ideal) None False,
      createReportLine Calcium ''cmolc'' (in_ca inputs) (ca_cmolc_min ideal) None False,
      createReportLine Magnesium ''cmolc'' (in_mg inputs) (mg_cmolc_min ideal) None False,
      createReportLine Sulfur ''ppm'' (in_s inputs) (s_ppm_min ideal) None False,
      createReportLine Boron ''ppm'' (in_b inputs) (b_ppm_min ideal) None False,
      createReportLine Zinc ''ppm'' (in_zn inputs) (zn_ppm_min ideal) None False,
      createReportLine Nitrogen ''ppm'' (in_n inputs) (n_ppm_min ideal) None False]"

text \<open>The click handler of \<^verbatim>\<open>analyzeSoilBtn\<close> in \<^verbatim>\<open>script.js\<close>.\<close>

definition analyzeSoilBtn_click ::
    "(string \<Rightarrow> variety option) \<Rightarrow> string \<Rightarrow> soil_inputs \<Rightarrow> error + report_line list" where
  "analyzeSoilBtn_click varieties varietyKey inputs =
     (if varietyKey = [] \<or> list_ex isNaN (input_values inputs) then Inl InvalidSoilValues
      else case varieties varietyKey of
             None \<Rightarrow> Inl TypeError
           | Some cultivar \<Rightarrow> Inr (soilReport (soil cultivar) inputs))"

text \<open>\<^verbatim>\<open>handleSoilAnalysis\<close> of \<^verbatim>\<open>map.js\<close>: the two tests are separate.\<close>

definition handleSoilAnalysis ::
    "(string \<Rightarrow> variety option) \<Rightarrow> string \<Rightarrow> soil_inputs \<Rightarrow> error + report_line list" where
  "handleSoilAnalysis varieties varietyKey inputs =
     (if varietyKey = [] then Inl SelectReferenceVariety
      else if list_ex isNaN (input_values inputs) then Inl FillValidNumbers
      else case varieties varietyKey of
             None \<Rightarrow> Inl TypeError
           | Some cultivar \<Rightarrow> Inr (soilReport (soil cultivar) inputs))"

section \<open>The planting-window classifier against its specification\<close>

text \<open>
  The specification's reading of a window: a date is the number \<open>month * 100 + day\<close>;
  it lies inside a window from \<open>start\<close> to \<open>end\<close> when \<open>start \<le> date \<le> end\<close> if the
  window does not wrap, and when \<open>date \<ge> start\<close> or \<open>date \<le> end\<close> if it wraps over the
  end of the year.
\<close>

definition encodeDate :: "int \<times> int \<Rightarrow> int" where
  "encodeDate md = fst md * 100 + snd md"

definition inWindow :: "int \<Rightarrow> int \<Rightarrow> int \<Rightarrow> bool" where
  "inWindow start end date =
     (if start \<le> end then start \<le> date \<and> date \<le> end else date \<ge> start \<or> date \<le> end)"

lemma isBetween_inWindow:
  "isBetween month day s e = inWindow (encodeDate s) (encodeDate e) (month * 100 + day)"
  by (cases s; cases e) (auto simp: isBetween_def inWindow_def encodeDate_def Let_def)

text \<open>
  Claim C3. For every month, day and region calendar, \<^verbatim>\<open>getPlantingSeason\<close> (both
  copies) returns Preferential exactly when the encoded date lies in the preferential
  window, otherwise Tolerated exactly when it lies in the tolerated window, otherwise
  NotRecommended, a window being read as \<open>inWindow\<close> reads it. In particular, with the
  tolerated window from (12, 15) to (1, 31) and a preferential window that holds none of
  the three dates, (12, 20) and (1, 10) are Tolerated and (6, 1) is NotRecommended.
\<close>

theorem C3_planting_window:
  fixes month day :: int and cal :: region
  defines "date \<equiv> month * 100 + day"
  defines "inPref \<equiv>
    inWindow (encodeDate (preferential_start cal)) (encodeDate (preferential_end cal))"
  defines "inTol \<equiv> inWindow (encodeDate (tolerated_start cal)) (encodeDate (tolerated_end cal))"
  shows "(getPlantingSeason month day (Some cal) =
            Inr (if inPref date then Preferential
                 else if inTol date then Tolerated else NotRecommended))
       \<and> (getPlantingSeason_script month day (Some cal) = getPlantingSeason month day (Some cal))
       \<and> (tolerated_start cal = (12, 15) \<and> tolerated_end cal = (1, 31)
            \<and> \<not> inPref 1220 \<and> \<not> inPref 110 \<and> \<not> inPref 601 \<longrightarrow>
            getPlantingSeason 12 20 (Some cal) = Inr Tolerated
            \<and> getPlantingSeason 1 10 (Some cal) = Inr Tolerated
            \<and> getPlantingSeason 6 1 (Some cal) = Inr NotRecommended)"
  unfolding date_def inPref_def inTol_def
  by (simp add: getPlantingSeason_def getPlantingSeason_script_def isBetween_inWindow)
     (simp add: inWindow_def encodeDate_def)

theorem C3_planting_window_witness:
  "getPlantingSeason 12 20
     (Some \<lparr>preferential_start = (2, 1), preferential_end = (2, 15),
            tolerated_start = (12, 15), tolerated_end = (1, 31)\<rparr>) = Inr Tolerated
   \<and> getPlantingSeason 1 10
     (Some \<lparr>preferential_start = (2, 1), preferential_end = (2, 15),
            tolerated_start = (12, 15), tolerated_end = (1, 31)\<rparr>) = Inr Tolerated
   \<and> getPlantingSeason 6 1
     (Some \<lparr>preferential_start = (2, 1), preferential_end = (2, 15),
            tolerated_start = (12, 15), tolerated_end = (1, 31)\<rparr>) = Inr NotRecommended"
  using C3_planting_window [of 0 0 "\<lparr>preferential_start = (2, 1), preferential_end = (2, 15),
            tolerated_start = (12, 15), tolerated_end = (1, 31)\<rparr>"]
  by (simp add: inWindow_def encodeDate_def)

section \<open>The soil report line\<close>

text \<open>
  Claim C4. For a measured value \<open>v\<close> and an ideal range in each of its three shapes,
  \<^verbatim>\<open>createReportLine\<close> gives: with minimum and maximum, \<open>High\<close> exactly when
  \<open>v > max\<close>, \<open>Low\<close> exactly when \<open>v < min\<close> (for a range with \<open>min \<le> max\<close>) and
  \<open>Ok\<close> otherwise, with the text \<^verbatim>\<open>min - max\<close>; with a minimum only, \<open>Low\<close> exactly
  when \<open>v < min\<close> and \<open>Ok\<close> otherwise, with the text \<^verbatim>\<open>> min\<close>; with a minimum only and
  the reversed flag, \<open>High\<close> exactly when \<open>v > min\<close> and \<open>Ok\<close> otherwise, with the text
  \<^verbatim>\<open>< min\<close>. (On a range with \<open>max < min\<close> the second test overrides the first: a
  value between the two is \<open>High\<close>.)
\<close>

theorem C4_report_line:
  fixes v mn mx :: real
  shows
    "(lineStatus (createReportLine l u (Num v) (Num mn) (Some (Num mx)) isRev) = High \<longleftrightarrow> v > mx)
   \<and> (mn \<le> mx \<longrightarrow>
        (lineStatus (createReportLine l u (Num v) (Num mn) (Some (Num mx)) isRev) = Low \<longleftrightarrow> v < mn))
   \<and> (lineStatus (createReportLine l u (Num v) (Num mn) (Some (Num mx)) isRev) = Ok
        \<longleftrightarrow> \<not> v < mn \<and> \<not> v > mx)
   \<and> lineIdeal (createReportLine l u (Num v) (Num mn) (Some (Num mx)) isRev) = Between (Num mn) (Num mx)
   \<and> (lineStatus (createReportLine l u (Num v) (Num mn) None False) = Low \<longleftrightarrow> v < mn)
   \<and> (lineStatus (createReportLine l u (Num v) (Num mn) None False) = Ok \<longleftrightarrow> \<not> v < mn)
   \<and> lineIdeal (createReportLine l u (Num v) (Num mn) None False) = GreaterThan (Num mn)
   \<and> (lineStatus (createReportLine l u (Num v) (Num mn) None True) = High \<longleftrightarrow> v > mn)
   \<and> (lineStatus (createReportLine l u (Num v) (Num mn) None True) = Ok \<longleftrightarrow> \<not> v > mn)
   \<and> lineIdeal (createReportLine l u (Num v) (Num mn) None True) = LessThan (Num mn)"
  by (simp add: createReportLine_def jslt_def jsgt_def Let_def)

theorem C4_report_line_witness:
  "lineStatus (createReportLine PH [] (Num 5.5) (Num 6.0) (Some (Num 6.5)) False) = Low
   \<and> lineStatus (createReportLine PH [] (Num 7) (Num 6.0) (Some (Num 6.5)) False) = High
   \<and> lineStatus (createReportLine PH [] (Num 6.2) (Num 6.0) (Some (Num 6.5)) False) = Ok
   \<and> lineStatus (createReportLine Aluminum ''cmolc'' (Num 0.5) (Num 0.3) None True) = High
   \<and> lineStatus (createReportLine Aluminum ''cmolc'' (Num 0.2) (Num 0.3) None True) = Ok"
  using C4_report_line [where l = PH and u = "[]" and v = "5.5" and mn = "6.0" and mx = "6.5"
      and isRev = False]
    C4_report_line [where l = PH and u = "[]" and v = 7 and mn = "6.0" and mx = "6.5"
      and isRev = False]
    C4_report_line [where l = PH and u = "[]" and v = "6.2" and mn = "6.0" and mx = "6.5"
      and isRev = False]
    C4_report_line [where l = Aluminum and u = "''cmolc''" and v = "0.5" and mn = "0.3"]
    C4_report_line [where l = Aluminum and u = "''cmolc''" and v = "0.2" and mn = "0.3"]
  by simp

section \<open>The sowing calculator against its specification\<close>

text \<open>The specification's factor for the condition of the field.\<close>

definition conditionFactor :: "string \<Rightarrow> real option" where
  "conditionFactor c =
     (if c = ''good'' then Some 1.00
      else if c = ''average'' then Some 1.05
      else if c = ''poor'' then Some 1.10
      else None)"





text \<open>
  Claim C8, as stated, fails: the guard \<^verbatim>\<open>!area || !varietyKey || !germinationRate\<close>
  stops zero and \<^verbatim>\<open>NaN\<close> only. With the variety TMG 84 B3XF, an area of -5 ha, a
  germination rate of 150 percent and one of -50 percent are all computed with; and a
  variety that the server delivers without a target population gives the count
  \<^verbatim>\<open>NaN\<close>, not a message.
\<close>

theorem C8_counterexample:
  "calculateSowingBtn_click cottonVarieties (Num (- 5)) ''tmg 84 b3xf'' (Num 90) ''good''
     = Inr (Num (- 611111))
   \<and> calculateSowingBtn_click cottonVarieties (Num 10) ''tmg 84 b3xf'' (Num 150) ''good''
     = Inr (Num 733334)
   \<and> calculateSowingBtn_click cottonVarieties (Num 10) ''tmg 84 b3xf'' (Num (- 50)) ''good''
     = Inr (Num (- 2200000))
   \<and> handleSowingCalculation
       (\<lambda>k. Some ((the (cottonVarieties ''brs 433'')) \<lparr>population := NaN\<rparr>))
       (Num 10) ''brs 433'' (Num 90) ''good''
     = Inr NaN"
proof -
  have a: "\<lceil>- (5::real) * 110000 * (100 / 90) * 1\<rceil> = - 611111"
    by (simp add: ceiling_eq_iff)
  have b: "\<lceil>(10::real) * 110000 * (100 / 150) * 1\<rceil> = 733334"
    by (simp add: ceiling_eq_iff)
  have c: "\<lceil>(10::real) * 110000 * (100 / - 50) * 1\<rceil> = - 2200000"
    by (simp add: ceiling_eq_iff)
  show ?thesis
    using a b c
    by (simp add: calculateSowingBtn_click_def handleSowingCalculation_def cottonVarieties_def
        falsy_def jsmul_def jsdiv_def Math_ceil_def)
qed

text \<open>
  Claim C8, amended. A sowing handler stops with ``Please fill in all fields correctly''
  exactly when the area is 0 or not a number, or the germination rate is 0 or not a
  number, or no variety is selected; every other area and rate, negative or above 100,
  yields a seed count for a variety that has a target population.
\<close>

theorem C8_sowing_guard:
  "(calculateSowingBtn_click varieties area key germ cond = Inl FillAllFields
      \<longleftrightarrow> area = NaN \<or> area = Num 0 \<or> key = [] \<or> germ = NaN \<or> germ = Num 0)
   \<and> (handleSowingCalculation varieties area key germ cond = Inl FillAllFields
      \<longleftrightarrow> area = NaN \<or> area = Num 0 \<or> key = [] \<or> germ = NaN \<or> germ = Num 0)
   \<and> (a \<noteq> 0 \<and> g \<noteq> 0 \<and> key \<noteq> [] \<and> varieties key = Some c \<and> population c = Num pop \<longrightarrow>
        (\<exists>n. calculateSowingBtn_click varieties (Num a) key (Num g) cond = Inr (Num n))
      \<and> (\<exists>n. handleSowingCalculation varieties (Num a) key (Num g) cond = Inr (Num n)))"
  by (cases area; cases germ)
    (auto simp: calculateSowingBtn_click_def handleSowingCalculation_def falsy_def Let_def
      jsmul_def jsdiv_def Math_ceil_def split: option.splits)

theorem C8_sowing_guard_witness:
  "calculateSowingBtn_click cottonVarieties (Num 0) ''tmg 84 b3xf'' (Num 90) ''good''
     = Inl FillAllFields
   \<and> calculateSowingBtn_click cottonVarieties (Num (- 5)) ''tmg 84 b3xf'' (Num 90) ''good''
     \<noteq> Inl FillAllFields
   \<and> (\<exists>n. calculateSowingBtn_click cottonVarieties (Num (- 5)) ''tmg 84 b3xf'' (Num 150) ''good''
     = Inr (Num n))"
  using C8_sowing_guard [where varieties = cottonVarieties and area = "Num 0"
      and key = "''tmg 84 b3xf''" and germ = "Num 90" and cond = "''good''"]
    C8_sowing_guard [where varieties = cottonVarieties and area = "Num (- 5)"
      and key = "''tmg 84 b3xf''" and germ = "Num 90" and cond = "''good''"
      and a = "- 5" and g = 150 and c = "the (cottonVarieties ''tmg 84 b3xf'')" and pop = 110000]
  by (simp add: cottonVarieties_def)

section \<open>Missing measurements\<close>

text \<open>
  Claim C6. If any of the eleven measurements is \<^verbatim>\<open>NaN\<close> (the field was empty or held
  no number), the soil analysis stops with its message and builds no report line:
  \<open>InvalidSoilValues\<close> in \<^verbatim>\<open>script.js\<close>, and in \<^verbatim>\<open>map.js\<close> \<open>FillValidNumbers\<close>
  (or \<open>SelectReferenceVariety\<close>, when no variety is selected either). These messages are
  the program's form of the specification's \<^verbatim>\<open>MissingMeasurementError\<close>.
\<close>

theorem C6_soil_all_or_nothing:
  assumes "in_ph i = NaN \<or> in_v i = NaN \<or> in_al i = NaN \<or> in_p i = NaN \<or> in_k i = NaN
    \<or> in_ca i = NaN \<or> in_mg i = NaN \<or> in_s i = NaN \<or> in_b i = NaN \<or> in_zn i = NaN
    \<or> in_n i = NaN"
  shows "analyzeSoilBtn_click varieties key i = Inl InvalidSoilValues
       \<and> handleSoilAnalysis varieties key i =
           Inl (if key = [] then SelectReferenceVariety else FillValidNumbers)
       \<and> (\<forall>ls. analyzeSoilBtn_click varieties key i \<noteq> Inr ls)
       \<and> (\<forall>ls. handleSoilAnalysis varieties key i \<noteq> Inr ls)"
proof -
  have "list_ex isNaN (input_values i)"
    using assms by (auto simp: input_values_def isNaN_def)
  then show ?thesis
    by (simp add: analyzeSoilBtn_click_def handleSoilAnalysis_def)
qed

theorem C6_soil_all_or_nothing_witness:
  "analyzeSoilBtn_click cottonVarieties ''brs 433''
     \<lparr>in_ph = Num 6.2, in_v = Num 65, in_al = Num 0.1, in_p = Num 30, in_k = Num 130,
      in_ca = Num 3, in_mg = Num 1, in_s = Num 12, in_b = Num 0.7, in_zn = Num 1.5,
      in_n = NaN\<rparr> = Inl InvalidSoilValues
   \<and> handleSoilAnalysis cottonVarieties ''brs 433''
     \<lparr>in_ph = Num 6.2, in_v = Num 65, in_al = Num 0.1, in_p = Num 30, in_k = Num 130,
      in_ca = Num 3, in_mg = Num 1, in_s = Num 12, in_b = Num 0.7, in_zn = Num 1.5,
      in_n = NaN\<rparr> = Inl FillValidNumbers"
  using C6_soil_all_or_nothing [where varieties = cottonVarieties and key = "''brs 433''" and
      i = "\<lparr>in_ph = Num 6.2, in_v = Num 65, in_al = Num 0.1, in_p = Num 30, in_k = Num 130,
      in_ca = Num 3, in_mg = Num 1, in_s = Num 12, in_b = Num 0.7, in_zn = Num 1.5,
      in_n = NaN\<rparr>"]
  by simp

section \<open>A missing region\<close>

text \<open>
  Claim C9, as stated, fails: without a region, \<^verbatim>\<open>getPlantingSeason\<close> of
  \<^verbatim>\<open>utils.js\<close> returns a badge and signals no error.
\<close>

theorem C9_counterexample:
  "getPlantingSeason 1 10 None = Inr RegionNotSelected
   \<and> (\<forall>e. getPlantingSeason 1 10 None \<noteq> Inl e)"
  by (simp add: getPlantingSeason_def)

text \<open>
  Claim C9, amended. For every month and day, without a region \<^verbatim>\<open>getPlantingSeason\<close>
  of \<^verbatim>\<open>utils.js\<close> returns, as an ordinary result, the fourth badge ``Region not
  selected'', styled as the badge ``Not Recommended'' is.
\<close>

theorem C9_region_not_selected:
  "getPlantingSeason month day None = Inr RegionNotSelected
   \<and> badge_class RegionNotSelected = badge_class NotRecommended"
  by (simp add: getPlantingSeason_def)

section \<open>The cycle timeline\<close>

subsection \<open>The loop and the calendar\<close>







lemma stageLoop_names:
  "map stageName (fst (stageLoop tza date sts)) = map fst sts
   \<and> map stageDuration (fst (stageLoop tza date sts)) = map snd sts"
  by (induction sts arbitrary: date) (auto simp: Let_def split_beta)


















subsection \<open>Additivity\<close>



subsection \<open>The example of the specification\<close>






subsection \<open>A variety without stages\<close>





end
